theory Spec2Isabelle
  imports Main "HOL-Library.Word"
begin

section \<open>Qt values as the feedback player observes them\<close>

text \<open>
  The player of \<^verbatim>\<open>notificationfeedbackplayer.cpp\<close> reads hints and window properties
  as \<^verbatim>\<open>QVariant\<close>s and looks at them only through \<^verbatim>\<open>toBool()\<close>, \<^verbatim>\<open>toString()\<close> and
  \<^verbatim>\<open>toUInt()\<close>. A variant is therefore represented by what these three conversions
  return, whatever its stored type is. The C++ \<^verbatim>\<open>uint\<close> is a 32-bit word; the \<^verbatim>\<open>int\<close>s
  of the source (priority, urgency) are only compared, never computed with, and are
  integers here.
\<close>

type_synonym uint = "32 word"

record QVariant =
  toBool :: bool
  toString :: string
  toUInt :: uint

text \<open>\<^verbatim>\<open>QVariant()\<close>: the invalid variant; every conversion of it fails and yields the
  default value of the target type.\<close>

definition QVariant_invalid :: QVariant where
  "QVariant_invalid = \<lparr>toBool = False, toString = [], toUInt = 0\<rparr>"

text \<open>\<^verbatim>\<open>QVariant(bool)\<close>.\<close>

definition QVariant_bool :: "bool \<Rightarrow> QVariant" where
  "QVariant_bool b =
     \<lparr>toBool = b, toString = (if b then ''true'' else ''false''),
      toUInt = (if b then 1 else 0)\<rparr>"

function decimal :: "nat \<Rightarrow> string" where
  "decimal n =
     (if n < 10 then [char_of (48 + n)]
      else decimal (n div 10) @ [char_of (48 + n mod 10)])"
  by pat_completeness auto
termination
  by (relation "measure (\<lambda>n. n)") auto

declare decimal.simps [simp del]

text \<open>\<^verbatim>\<open>QVariant(uint)\<close>.\<close>

definition QVariant_uint :: "uint \<Rightarrow> QVariant" where
  "QVariant_uint u = \<lparr>toBool = (u \<noteq> 0), toString = decimal (unat u), toUInt = u\<rparr>"

text \<open>\<^verbatim>\<open>QHash::value(key, defaultValue)\<close> and \<^verbatim>\<open>QMap::value(key, defaultValue)\<close>; the
  one-argument \<^verbatim>\<open>value(key)\<close> of a variant container has the default \<^verbatim>\<open>QVariant()\<close>.\<close>

definition value_or :: "('k \<rightharpoonup> 'v) \<Rightarrow> 'k \<Rightarrow> 'v \<Rightarrow> 'v" where
  "value_or h k d = (case h k of None \<Rightarrow> d | Some v \<Rightarrow> v)"

definition value_of :: "('k \<rightharpoonup> QVariant) \<Rightarrow> 'k \<Rightarrow> QVariant" where
  "value_of h k = value_or h k QVariant_invalid"

text \<open>\<^verbatim>\<open>QString::split(sep, behavior)\<close> for a one-character separator: the segments
  between the separators, in order; \<^verbatim>\<open>SkipEmptyParts\<close> leaves the empty ones out. The
  second argument of \<open>split_from\<close> is the segment read so far.\<close>

datatype SplitBehavior = KeepEmptyParts | SkipEmptyParts

fun split_from :: "char \<Rightarrow> SplitBehavior \<Rightarrow> string \<Rightarrow> string \<Rightarrow> string list" where
  "split_from sep behavior seg [] =
     (if seg \<noteq> [] \<or> behavior = KeepEmptyParts then [seg] else [])"
| "split_from sep behavior seg (c # cs) =
     (if c = sep then
        (if seg \<noteq> [] \<or> behavior = KeepEmptyParts then seg # split_from sep behavior [] cs
         else split_from sep behavior [] cs)
      else split_from sep behavior (seg @ [c]) cs)"

definition split :: "string \<Rightarrow> char \<Rightarrow> SplitBehavior \<Rightarrow> string list" where
  "split s sep behavior = split_from sep behavior [] s"

section \<open>Notifications, surfaces and the effect service\<close>

text \<open>Modelled from the spec: the hint keys are string constants of
  \<^verbatim>\<open>LipstickNotification\<close>, whose declaration is not among the sources; the data model
  names them (feedback tags, sound file, suppress-sound, vibrate, LED-suppress,
  origin-package, display-always). They are distinct keys; \<open>HINT_OTHER\<close> stands for
  every other key a hint table may hold.\<close>

datatype hint_key =
    HINT_FEEDBACK
  | HINT_SOUND_FILE
  | HINT_SUPPRESS_SOUND
  | HINT_VIBRA
  | HINT_LED_DISABLED_WITHOUT_BODY_AND_SUMMARY
  | HINT_ORIGIN_PACKAGE
  | HINT_DISPLAY_ON
  | HINT_OTHER string

text \<open>The accessors of \<^verbatim>\<open>LipstickNotification\<close> that the player calls.\<close>

record LipstickNotification =
  hints :: "hint_key \<rightharpoonup> QVariant"
  body :: string
  summary :: string
  urgency :: int
  priority :: int
  hidden :: bool
  restored :: bool
  hasProgress :: bool

record QWaylandSurface =
  windowProperties :: "string \<rightharpoonup> QVariant"

text \<open>The anonymous enum \<^verbatim>\<open>PreviewMode\<close> and the values of its enumerators.\<close>

datatype PreviewMode =
    AllNotificationsEnabled
  | ApplicationNotificationsDisabled
  | SystemNotificationsDisabled
  | AllNotificationsDisabled

fun mode_value :: "PreviewMode \<Rightarrow> uint" where
  "mode_value AllNotificationsEnabled = 0"
| "mode_value ApplicationNotificationsDisabled = 1"
| "mode_value SystemNotificationsDisabled = 2"
| "mode_value AllNotificationsDisabled = 3"

text \<open>The property list of \<^verbatim>\<open>Ngf::Client::play\<close> is a \<^verbatim>\<open>QMap<QString, QVariant>\<close>. The
  player puts only variants made from a \<^verbatim>\<open>bool\<close> or a \<^verbatim>\<open>QString\<close> into it.
  \<open>insert\<close> replaces the value of a key that is there already.\<close>

datatype PropValue = PropBool bool | PropString string

type_synonym Proplist = "(string \<times> PropValue) list"

fun insert_prop :: "string \<Rightarrow> PropValue \<Rightarrow> Proplist \<Rightarrow> Proplist" where
  "insert_prop k v [] = [(k, v)]"
| "insert_prop k v ((k', v') # ps) =
     (if k' = k then (k, v) # ps else (k', v') # insert_prop k v ps)"

text \<open>The effect-playback service is outside the program. The client is the trace of the
  requests sent to it, oldest first, together with the event ids the service hands
  out: the \<open>k\<close>-th \<^verbatim>\<open>play\<close> request returns \<open>eventIds k\<close>. Nothing is assumed about
  these ids.\<close>

datatype ngf_call = Play string Proplist | StopId uint | StopEvent string

record NgfClient =
  calls :: "ngf_call list"
  eventIds :: "nat \<Rightarrow> uint"
  played :: nat

definition play :: "string \<Rightarrow> Proplist \<Rightarrow> NgfClient \<Rightarrow> uint \<times> NgfClient" where
  "play event properties c =
     (eventIds c (played c),
      c\<lparr>calls := calls c @ [Play event properties], played := Suc (played c)\<rparr>)"

definition stop_id :: "uint \<Rightarrow> NgfClient \<Rightarrow> NgfClient" where
  "stop_id eventId c = c\<lparr>calls := calls c @ [StopId eventId]\<rparr>"

definition stop_event :: "string \<Rightarrow> NgfClient \<Rightarrow> NgfClient" where
  "stop_event event c = c\<lparr>calls := calls c @ [StopEvent event]\<rparr>"

text \<open>What the player reads from the singletons: \<^verbatim>\<open>NotificationManager::notification(id)\<close>
  (a pointer, null when the id is unknown), the object behind a pointer, and
  \<^verbatim>\<open>surfaceForId(topmostWindowId())\<close> of the compositor (null when no window is
  topmost). The compositor itself is taken to exist.\<close>

type_synonym ptr = nat

record environment =
  notification :: "uint \<Rightarrow> ptr option"
  object :: "ptr \<Rightarrow> LipstickNotification"
  topmostSurface :: "QWaylandSurface option"

text \<open>The player. \<^verbatim>\<open>m_idToEventId\<close> is a \<^verbatim>\<open>QMultiHash<LipstickNotification *, uint>\<close>: a
  list of key-value pairs in which the entries of one key stand newest first, which is
  the order \<^verbatim>\<open>find\<close> and the iterator visit them in.\<close>

record NotificationFeedbackPlayer =
  m_ngfClient :: NgfClient
  m_minimumPriority :: int
  m_idToEventId :: "(ptr \<times> uint) list"

section \<open>The player's operations\<close>

text \<open>Lines 122 to 126 of \<^verbatim>\<open>isEnabled\<close>: the mode read from the topmost surface.\<close>

definition currentMode :: "QWaylandSurface option \<Rightarrow> uint" where
  "currentMode surface =
     (case surface of
        None \<Rightarrow> mode_value AllNotificationsEnabled
      | Some sf \<Rightarrow>
          toUInt (value_or (windowProperties sf) ''NOTIFICATION_PREVIEWS_DISABLED''
                    (QVariant_uint (mode_value AllNotificationsEnabled))))"

definition isEnabled :: "QWaylandSurface option \<Rightarrow> LipstickNotification \<Rightarrow> int \<Rightarrow> bool" where
  "isEnabled surface n minimumPriority =
     (if hidden n \<or> restored n then False
      else
        let mode = currentMode surface;
            notificationIsCritical =
              (urgency n \<ge> 2 \<or> toBool (value_of (hints n) HINT_DISPLAY_ON))
        in (priority n \<ge> minimumPriority \<or> notificationIsCritical)
           \<and> (mode = mode_value AllNotificationsEnabled
              \<or> (mode = mode_value ApplicationNotificationsDisabled \<and> notificationIsCritical)
              \<or> (mode = mode_value SystemNotificationsDisabled \<and> urgency n < 2)))"

text \<open>The loop of lines 55 to 59 and 109 to 113: every entry of the key is stopped and
  erased, the entries of other keys stay.\<close>

fun stopFeedback :: "ptr \<Rightarrow> (ptr \<times> uint) list \<Rightarrow> NgfClient \<Rightarrow> (ptr \<times> uint) list \<times> NgfClient" where
  "stopFeedback p [] c = ([], c)"
| "stopFeedback p ((k, v) # m) c =
     (if k = p then stopFeedback p m (stop_id v c)
      else (case stopFeedback p m c of (m', c') \<Rightarrow> ((k, v) # m', c')))"

definition feedbackItems :: "LipstickNotification \<Rightarrow> string list" where
  "feedbackItems n = split (toString (value_of (hints n) HINT_FEEDBACK)) CHR '','' SkipEmptyParts"

text \<open>Lines 65 to 87: the properties of the effects of the feedback hint.\<close>

definition strip_file_prefix :: "string \<Rightarrow> string" where
  "strip_file_prefix soundFile =
     (if take 7 soundFile = ''file://'' then drop 7 soundFile else soundFile)"

definition feedbackProperties :: "LipstickNotification \<Rightarrow> Proplist" where
  "feedbackProperties n =
     (let p0 = [];
          p1 = (if toBool (value_or (hints n) HINT_LED_DISABLED_WITHOUT_BODY_AND_SUMMARY
                             (QVariant_bool True))
                   \<and> body n = [] \<and> summary n = []
                then insert_prop ''media.leds'' (PropBool False) p0 else p0);
          p2 = (if toBool (value_or (hints n) HINT_SUPPRESS_SOUND (QVariant_bool False))
                then insert_prop ''media.audio'' (PropBool False) p1 else p1);
          p3 = (if toString (value_of (hints n) HINT_ORIGIN_PACKAGE) \<noteq> []
                then insert_prop ''media.vibra'' (PropBool False) p2 else p2);
          soundFile = toString (value_of (hints n) HINT_SOUND_FILE)
      in if soundFile \<noteq> []
         then insert_prop ''sound.enabled'' (PropBool True)
                (insert_prop ''sound.filename'' (PropString (strip_file_prefix soundFile)) p3)
         else p3)"

text \<open>The \<^verbatim>\<open>foreach\<close> of lines 89 to 92.\<close>

fun playItems :: "ptr \<Rightarrow> Proplist \<Rightarrow> string list \<Rightarrow> (ptr \<times> uint) list \<Rightarrow> NgfClient
    \<Rightarrow> (ptr \<times> uint) list \<times> NgfClient" where
  "playItems p properties [] m c = (m, c)"
| "playItems p properties (item # items) m c =
     (case play item properties (stop_event item c) of
        (eventId, c') \<Rightarrow> playItems p properties items ((p, eventId) # m) c')"

definition addNotification :: "environment \<Rightarrow> uint \<Rightarrow> NotificationFeedbackPlayer \<Rightarrow> NotificationFeedbackPlayer" where
  "addNotification env nid s =
     (case notification env nid of
        None \<Rightarrow> s
      | Some p \<Rightarrow>
          let n = object env p in
          if hasProgress n then s
          else
            let (m1, c1) = stopFeedback p (m_idToEventId s) (m_ngfClient s);
                (m2, c2) =
                  (if isEnabled (topmostSurface env) n (m_minimumPriority s) \<and> feedbackItems n \<noteq> []
                   then playItems p (feedbackProperties n) (feedbackItems n) m1 c1
                   else (m1, c1));
                (m3, c3) =
                  (if isEnabled (topmostSurface env) n 0
                      \<and> toBool (value_or (hints n) HINT_VIBRA (QVariant_bool False))
                   then (case play ''vibra'' [] (stop_event ''vibra'' c2) of
                           (eventId, c') \<Rightarrow> ((p, eventId) # m2, c'))
                   else (m2, c2))
            in s\<lparr>m_ngfClient := c3, m_idToEventId := m3\<rparr>)"

definition removeNotification :: "environment \<Rightarrow> uint \<Rightarrow> NotificationFeedbackPlayer \<Rightarrow> NotificationFeedbackPlayer" where
  "removeNotification env nid s =
     (case notification env nid of
        None \<Rightarrow> s
      | Some p \<Rightarrow>
          let (m1, c1) = stopFeedback p (m_idToEventId s) (m_ngfClient s)
          in s\<lparr>m_ngfClient := c1, m_idToEventId := m1\<rparr>)"

section \<open>Vocabulary of the properties\<close>

text \<open>\<^verbatim>\<open>QMultiHash::values(key)\<close>: the event ids bound to a notification, newest
  first.\<close>

definition bindings :: "ptr \<Rightarrow> (ptr \<times> uint) list \<Rightarrow> uint list" where
  "bindings p m = map snd (filter (\<lambda>e. fst e = p) m)"

text \<open>The requests that start a list of effects: each effect is stopped by name and
  then played.\<close>

definition requests :: "(string \<times> Proplist) list \<Rightarrow> ngf_call list" where
  "requests es =
     concat (map (\<lambda>(event, properties). [StopEvent event, Play event properties]) es)"

text \<open>The effects one call of \<open>addNotification\<close> starts for a notification that is in
  the store and has no progress, with the properties of each: the items of the feedback
  hint when the notification is enabled at the configured priority, then the bare
  vibration when it is enabled at priority 0 and the vibrate hint is true.\<close>

definition startedEffects ::
    "QWaylandSurface option \<Rightarrow> LipstickNotification \<Rightarrow> int \<Rightarrow> (string \<times> Proplist) list" where
  "startedEffects surface n minimumPriority =
     (if isEnabled surface n minimumPriority
      then map (\<lambda>item. (item, feedbackProperties n)) (feedbackItems n) else [])
     @ (if isEnabled surface n 0 \<and> toBool (value_or (hints n) HINT_VIBRA (QVariant_bool False))
        then [(''vibra'', [])] else [])"

text \<open>A hint as the specification speaks of it: true, explicitly false, or its text
  (empty when the hint is absent).\<close>

definition hint_true :: "LipstickNotification \<Rightarrow> hint_key \<Rightarrow> bool" where
  "hint_true n k = (case hints n k of None \<Rightarrow> False | Some v \<Rightarrow> toBool v)"

definition hint_false :: "LipstickNotification \<Rightarrow> hint_key \<Rightarrow> bool" where
  "hint_false n k = (case hints n k of None \<Rightarrow> False | Some v \<Rightarrow> \<not> toBool v)"

definition hint_text :: "LipstickNotification \<Rightarrow> hint_key \<Rightarrow> string" where
  "hint_text n k = (case hints n k of None \<Rightarrow> [] | Some v \<Rightarrow> toString v)"

text \<open>The policy in the words of the specification (section 4.2): criticality, and what
  each of the four suppression modes permits.\<close>

definition critical_threshold :: int where
  "critical_threshold = 2"

definition isCritical :: "LipstickNotification \<Rightarrow> bool" where
  "isCritical n = (urgency n \<ge> critical_threshold \<or> hint_true n HINT_DISPLAY_ON)"

fun permits :: "PreviewMode \<Rightarrow> LipstickNotification \<Rightarrow> bool" where
  "permits AllNotificationsEnabled n = True"
| "permits ApplicationNotificationsDisabled n = isCritical n"
| "permits SystemNotificationsDisabled n = (urgency n < critical_threshold)"
| "permits AllNotificationsDisabled n = False"

text \<open>A run of \<open>addNotification\<close> calls, each with the store and the surface as they
  are at its moment: the notification source changes a notification in place between
  an add and a later update.\<close>

fun addNotifications ::
    "(environment \<times> uint) list \<Rightarrow> NotificationFeedbackPlayer \<Rightarrow> NotificationFeedbackPlayer" where
  "addNotifications [] s = s"
| "addNotifications ((env, nid) # events) s = addNotifications events (addNotification env nid s)"

text \<open>Joining segments with a separator, the inverse of splitting.\<close>

fun join :: "char \<Rightarrow> string list \<Rightarrow> string" where
  "join sep [] = []"
| "join sep [w] = w"
| "join sep (w # ws) = w @ sep # join sep ws"

section \<open>Example inputs\<close>

text \<open>A variant made from a \<^verbatim>\<open>QString\<close> that holds no number (only such texts are used
  below): it converts to no \<^verbatim>\<open>uint\<close>, and to \<^verbatim>\<open>false\<close> only when it is empty,
  \<^verbatim>\<open>"0"\<close> or \<^verbatim>\<open>"false"\<close>.\<close>

definition QVariant_text :: "string \<Rightarrow> QVariant" where
  "QVariant_text s = \<lparr>toBool = (s \<notin> {[], ''0'', ''false''}), toString = s, toUInt = 0\<rparr>"

text \<open>The notification of the scenarios of the specification: priority 5, normal
  urgency, with the given hints.\<close>

definition example_notification :: "(hint_key \<rightharpoonup> QVariant) \<Rightarrow> LipstickNotification" where
  "example_notification h =
     \<lparr>hints = h, body = ''b'', summary = ''s'', urgency = 1, priority = 5,
      hidden = False, restored = False, hasProgress = False\<rparr>"

definition critical_notification :: LipstickNotification where
  "critical_notification = (example_notification Map.empty)\<lparr>urgency := 2, priority := 0\<rparr>"

definition display_on_notification :: LipstickNotification where
  "display_on_notification =
     (example_notification [HINT_DISPLAY_ON \<mapsto> QVariant_bool True, HINT_VIBRA \<mapsto> QVariant_bool True])
       \<lparr>priority := 0\<rparr>"

definition vibrate_notification :: LipstickNotification where
  "vibrate_notification = (example_notification [HINT_VIBRA \<mapsto> QVariant_bool True])\<lparr>priority := 0\<rparr>"

definition forwarded_notification :: LipstickNotification where
  "forwarded_notification =
     example_notification
       [HINT_FEEDBACK \<mapsto> QVariant_text ''sound'',
        HINT_SOUND_FILE \<mapsto> QVariant_text [],
        HINT_ORIGIN_PACKAGE \<mapsto> QVariant_text ''pkg'',
        HINT_VIBRA \<mapsto> QVariant_bool True]"

definition sound_file_notification :: "string \<Rightarrow> LipstickNotification" where
  "sound_file_notification feedback =
     (example_notification
        [HINT_FEEDBACK \<mapsto> QVariant_text feedback,
         HINT_SOUND_FILE \<mapsto> QVariant_text ''file:///a.wav'',
         HINT_SUPPRESS_SOUND \<mapsto> QVariant_bool True])
       \<lparr>body := [], summary := []\<rparr>"

definition mode_surface :: "QVariant \<Rightarrow> QWaylandSurface" where
  "mode_surface v = \<lparr>windowProperties = [''NOTIFICATION_PREVIEWS_DISABLED'' \<mapsto> v]\<rparr>"

text \<open>A store that holds one notification, with id 1, at address 7.\<close>

definition example_environment :: "LipstickNotification \<Rightarrow> QWaylandSurface option \<Rightarrow> environment" where
  "example_environment n surface =
     \<lparr>notification = [1 \<mapsto> 7], object = (\<lambda>p. n), topmostSurface = surface\<rparr>"

text \<open>A player with minimum priority 3 and the given bindings, on a service that
  numbers its events from 100.\<close>

definition example_player :: "(ptr \<times> uint) list \<Rightarrow> NotificationFeedbackPlayer" where
  "example_player m =
     \<lparr>m_ngfClient = \<lparr>calls = [], eventIds = (\<lambda>k. 100 + of_nat k), played = 0\<rparr>,
      m_minimumPriority = 3,
      m_idToEventId = m\<rparr>"

section \<open>The loops in closed form\<close>

lemma stopFeedback_eq:
  "stopFeedback p m c =
     (filter (\<lambda>e. fst e \<noteq> p) m, c\<lparr>calls := calls c @ map StopId (bindings p m)\<rparr>)"
  by (induction m arbitrary: c) (auto simp: bindings_def stop_id_def)

lemma upt_head: "[a ..< Suc (a + n)] = a # [Suc a ..< Suc (a + n)]"
  by (rule upt_conv_Cons) simp

lemma playItems_eq:
  "playItems p properties items m c =
     (rev (map (\<lambda>k. (p, eventIds c k)) [played c ..< played c + length items]) @ m,
      c\<lparr>calls := calls c @ requests (map (\<lambda>item. (item, properties)) items),
        played := played c + length items\<rparr>)"
proof (induction items arbitrary: m c)
  case Nil
  show ?case by (simp add: requests_def)
next
  case (Cons item items)
  show ?case
    by (simp add: Cons.IH play_def stop_event_def requests_def upt_head del: upt_Suc)
qed

lemma addNotification_live:
  assumes "notification env nid = Some p" and "\<not> hasProgress (object env p)"
  shows "addNotification env nid s =
     (let c = m_ngfClient s;
          es = startedEffects (topmostSurface env) (object env p) (m_minimumPriority s)
      in s\<lparr>m_ngfClient :=
              c\<lparr>calls := calls c @ map StopId (bindings p (m_idToEventId s)) @ requests es,
                played := played c + length es\<rparr>,
            m_idToEventId :=
              rev (map (\<lambda>k. (p, eventIds c k)) [played c ..< played c + length es])
              @ filter (\<lambda>e. fst e \<noteq> p) (m_idToEventId s)\<rparr>)"
  using assms
  by (simp add: addNotification_def stopFeedback_eq playItems_eq startedEffects_def Let_def
      play_def stop_event_def requests_def)

lemma removeNotification_live:
  assumes "notification env nid = Some p"
  shows "removeNotification env nid s =
     s\<lparr>m_ngfClient := (m_ngfClient s)\<lparr>calls := calls (m_ngfClient s)
            @ map StopId (bindings p (m_idToEventId s))\<rparr>,
       m_idToEventId := filter (\<lambda>e. fst e \<noteq> p) (m_idToEventId s)\<rparr>"
  using assms by (simp add: removeNotification_def stopFeedback_eq)

section \<open>Bindings\<close>

lemma bindings_filter_same [simp]: "bindings p (filter (\<lambda>e. fst e \<noteq> p) m) = []"
  by (induction m) (auto simp: bindings_def)

lemma bindings_filter_other [simp]:
  "q \<noteq> p \<Longrightarrow> bindings q (filter (\<lambda>e. fst e \<noteq> p) m) = bindings q m"
  by (induction m) (auto simp: bindings_def)

lemma bindings_append [simp]: "bindings p (m @ m') = bindings p m @ bindings p m'"
  by (simp add: bindings_def)

lemma bindings_started_same [simp]:
  "bindings p (rev (map (\<lambda>k. (p, f k)) ks)) = rev (map f ks)"
  by (induction ks) (auto simp: bindings_def)

lemma bindings_started_other [simp]:
  "q \<noteq> p \<Longrightarrow> bindings q (rev (map (\<lambda>k. (p, f k)) ks)) = []"
  by (induction ks) (auto simp: bindings_def)

lemma eventIds_addNotification [simp]:
  "eventIds (m_ngfClient (addNotification env nid s)) = eventIds (m_ngfClient s)"
proof (cases "notification env nid")
  case None
  then show ?thesis by (simp add: addNotification_def)
next
  case (Some p)
  then show ?thesis
    by (cases "hasProgress (object env p)")
      (simp_all add: addNotification_live Let_def, simp add: addNotification_def)
qed

lemma bindings_addNotification_other:
  assumes "notification env nid \<noteq> Some p"
  shows "bindings p (m_idToEventId (addNotification env nid s)) = bindings p (m_idToEventId s)"
proof (cases "notification env nid")
  case None
  then show ?thesis by (simp add: addNotification_def)
next
  case (Some q)
  with assms have "p \<noteq> q" by auto
  with Some show ?thesis
    by (cases "hasProgress (object env q)")
      (simp_all add: addNotification_live Let_def, simp add: addNotification_def)
qed

lemma bindings_addNotifications_other:
  assumes "\<forall>(env, nid) \<in> set events. notification env nid \<noteq> Some p"
  shows "bindings p (m_idToEventId (addNotifications events s)) = bindings p (m_idToEventId s)"
  using assms
  by (induction events arbitrary: s) (auto simp: bindings_addNotification_other)

lemma addNotifications_append:
  "addNotifications (xs @ ys) s = addNotifications ys (addNotifications xs s)"
  by (induction xs arbitrary: s) auto

lemma no_StopId_requests: "StopId h \<notin> set (requests es)"
  by (auto simp: requests_def)

section \<open>Hints and the policy\<close>

lemma hint_true_eq: "toBool (value_or (hints n) k (QVariant_bool False)) = hint_true n k"
  by (simp add: hint_true_def value_or_def QVariant_bool_def split: option.split)

lemma hint_true_invalid_eq: "toBool (value_of (hints n) k) = hint_true n k"
  by (simp add: hint_true_def value_of_def value_or_def QVariant_invalid_def split: option.split)

lemma hint_false_eq: "toBool (value_or (hints n) k (QVariant_bool True)) = (\<not> hint_false n k)"
  by (simp add: hint_false_def value_or_def QVariant_bool_def split: option.split)

lemma hint_text_eq: "toString (value_of (hints n) k) = hint_text n k"
  by (simp add: hint_text_def value_of_def value_or_def QVariant_invalid_def split: option.split)

lemma isCritical_eq:
  "isCritical n = (urgency n \<ge> 2 \<or> toBool (value_of (hints n) HINT_DISPLAY_ON))"
  by (simp add: isCritical_def critical_threshold_def hint_true_invalid_eq)

lemma isEnabled_eq:
  "isEnabled surface n minimumPriority =
     (\<not> hidden n \<and> \<not> restored n \<and> (priority n \<ge> minimumPriority \<or> isCritical n)
      \<and> (currentMode surface = 0 \<or> (currentMode surface = 1 \<and> isCritical n)
           \<or> (currentMode surface = 2 \<and> urgency n < 2)))"
  by (auto simp: isEnabled_def isCritical_eq Let_def)

lemma startedEffects_vibra:
  assumes "isEnabled surface n 0" and "hint_true n HINT_VIBRA"
  shows "startedEffects surface n minimumPriority =
     (if isEnabled surface n minimumPriority
      then map (\<lambda>item. (item, feedbackProperties n)) (feedbackItems n) else [])
     @ [(''vibra'', [])]"
  using assms by (simp add: startedEffects_def hint_true_eq)

lemma startedEffects_disabled:
  assumes "\<not> isEnabled surface n 0" and "priority n < minimumPriority"
  shows "startedEffects surface n minimumPriority = []"
  using assms by (auto simp: startedEffects_def isEnabled_eq)

lemma requests_append [simp]: "requests (es @ es') = requests es @ requests es'"
  by (simp add: requests_def)

section \<open>Properties and splitting\<close>

lemma map_of_insert_prop:
  "map_of (insert_prop k v ps) k' = (if k' = k then Some v else map_of ps k')"
  by (induction ps) auto

lemma feedbackProperties_lookup:
  "map_of (feedbackProperties n) k =
     (if k = ''sound.enabled'' \<and> hint_text n HINT_SOUND_FILE \<noteq> [] then Some (PropBool True)
      else if k = ''sound.filename'' \<and> hint_text n HINT_SOUND_FILE \<noteq> []
        then Some (PropString (strip_file_prefix (hint_text n HINT_SOUND_FILE)))
      else if k = ''media.vibra'' \<and> hint_text n HINT_ORIGIN_PACKAGE \<noteq> [] then Some (PropBool False)
      else if k = ''media.audio'' \<and> hint_true n HINT_SUPPRESS_SOUND then Some (PropBool False)
      else if k = ''media.leds'' \<and> \<not> hint_false n HINT_LED_DISABLED_WITHOUT_BODY_AND_SUMMARY
                \<and> body n = [] \<and> summary n = [] then Some (PropBool False)
      else None)"
  by (simp add: feedbackProperties_def Let_def map_of_insert_prop hint_true_eq hint_false_eq
      hint_text_eq)

lemma split_from_skip:
  "split_from sep SkipEmptyParts seg s =
     filter (\<lambda>w. w \<noteq> []) (split_from sep KeepEmptyParts seg s)"
  by (induction s arbitrary: seg) auto

lemma split_from_keep_nonempty: "split_from sep KeepEmptyParts seg s \<noteq> []"
  by (induction s arbitrary: seg) auto

lemma join_Cons: "ws \<noteq> [] \<Longrightarrow> join sep (w # ws) = w @ sep # join sep ws"
  by (cases ws) auto

lemma join_split_from: "join sep (split_from sep KeepEmptyParts seg s) = seg @ s"
  by (induction s arbitrary: seg) (auto simp: join_Cons split_from_keep_nonempty)

lemma split_from_no_sep:
  "sep \<notin> set seg \<Longrightarrow> \<forall>w \<in> set (split_from sep behavior seg s). sep \<notin> set w"
proof (induction s arbitrary: seg)
  case Nil
  then show ?case by simp
next
  case (Cons c cs)
  have fresh: "\<forall>w \<in> set (split_from sep behavior [] cs). sep \<notin> set w"
    using Cons.IH [of "[]"] by simp
  have longer: "\<forall>w \<in> set (split_from sep behavior (seg @ [c]) cs). sep \<notin> set w" if "c \<noteq> sep"
    using Cons.IH [of "seg @ [c]"] Cons.prems that by simp
  show ?case
    using fresh longer Cons.prems by simp
qed

section \<open>The policy evaluator\<close>

text \<open>
  C1. For a notification that is neither hidden nor restored, \<open>isEnabled\<close> holds exactly
  when the priority is at least the minimum or the notification is critical, and the
  suppression mode permits it. The mode is all-enabled when no window is topmost or the
  topmost window declares no suppression property, and otherwise the mode the property
  of the topmost window declares. All-enabled permits always,
  app-notifications-disabled permits critical notifications only,
  system-notifications-disabled permits urgencies below the critical threshold 2 only,
  all-disabled permits nothing. Critical means urgency at least 2 or a true
  display-always hint.
\<close>

theorem isEnabled_iff:
  assumes "\<not> hidden n" and "\<not> restored n"
    and "(surface = None \<and> mode = AllNotificationsEnabled)
       \<or> (\<exists>sf. surface = Some sf
             \<and> windowProperties sf ''NOTIFICATION_PREVIEWS_DISABLED'' = None
             \<and> mode = AllNotificationsEnabled)
       \<or> (\<exists>sf v. surface = Some sf
             \<and> windowProperties sf ''NOTIFICATION_PREVIEWS_DISABLED'' = Some v
             \<and> toUInt v = mode_value mode)"
  shows "isEnabled surface n minimumPriority \<longleftrightarrow>
           (priority n \<ge> minimumPriority \<or> isCritical n) \<and> permits mode n"
proof -
  from assms(3) have "currentMode surface = mode_value mode"
    by (auto simp: currentMode_def value_or_def QVariant_uint_def)
  with assms(1,2) show ?thesis
    by (cases mode) (auto simp: isEnabled_def isCritical_eq critical_threshold_def Let_def)
qed

text \<open>The scenario of the specification (app-notifications-disabled, critical urgency,
  priority 0 under the minimum 3), and the same window with a notification that is not
  critical; a critical notification under system-notifications-disabled and under
  all-disabled.\<close>

theorem isEnabled_iff_witness:
  "\<not> hidden critical_notification \<and> \<not> restored critical_notification
   \<and> isCritical critical_notification
   \<and> \<not> isCritical (example_notification Map.empty)
   \<and> isEnabled (Some (mode_surface (QVariant_uint 1))) critical_notification 3
   \<and> \<not> isEnabled (Some (mode_surface (QVariant_uint 1))) (example_notification Map.empty) 3
   \<and> \<not> isEnabled (Some (mode_surface (QVariant_uint 2))) critical_notification 3
   \<and> isEnabled (Some (mode_surface (QVariant_uint 2))) (example_notification Map.empty) 3
   \<and> \<not> isEnabled (Some (mode_surface (QVariant_uint 3))) critical_notification 3
   \<and> isEnabled None (example_notification Map.empty) 3"
  using isEnabled_iff [of critical_notification "Some (mode_surface (QVariant_uint 1))"
      ApplicationNotificationsDisabled 3]
    isEnabled_iff [of "example_notification Map.empty" "Some (mode_surface (QVariant_uint 1))"
      ApplicationNotificationsDisabled 3]
    isEnabled_iff [of critical_notification "Some (mode_surface (QVariant_uint 2))"
      SystemNotificationsDisabled 3]
    isEnabled_iff [of "example_notification Map.empty" "Some (mode_surface (QVariant_uint 2))"
      SystemNotificationsDisabled 3]
    isEnabled_iff [of critical_notification "Some (mode_surface (QVariant_uint 3))"
      AllNotificationsDisabled 3]
    isEnabled_iff [of "example_notification Map.empty" None AllNotificationsEnabled 3]
  by (simp add: critical_notification_def example_notification_def mode_surface_def
      QVariant_uint_def isCritical_def critical_threshold_def hint_true_def)

text \<open>
  C2. A hidden or a restored notification is never enabled, whatever the minimum priority,
  its priority, urgency and hints, and the surface are.
\<close>

theorem hidden_or_restored_disabled:
  assumes "hidden n \<or> restored n"
  shows "\<not> isEnabled surface n minimumPriority"
  using assms by (simp add: isEnabled_def)

theorem hidden_or_restored_disabled_witness:
  "restored (display_on_notification\<lparr>restored := True\<rparr>)
   \<and> isEnabled None display_on_notification 0
   \<and> \<not> isEnabled None (display_on_notification\<lparr>restored := True\<rparr>) 0"
  using hidden_or_restored_disabled [of "display_on_notification\<lparr>restored := True\<rparr>" None 0]
  by (simp add: display_on_notification_def example_notification_def isEnabled_def
      currentMode_def)




text \<open>
  C10. When the value read from the suppression property of the topmost window is none
  of 0, 1 and 2, so 3 and every unknown value from 4 on, \<open>isEnabled\<close> is false for every
  notification and every minimum priority.
\<close>

theorem unknown_mode_disabled:
  assumes "windowProperties sf ''NOTIFICATION_PREVIEWS_DISABLED'' = Some v"
    and "toUInt v \<noteq> 0" and "toUInt v \<noteq> 1" and "toUInt v \<noteq> 2"
  shows "\<not> isEnabled (Some sf) n minimumPriority"
  using assms by (simp add: isEnabled_def currentMode_def value_or_def Let_def)

theorem unknown_mode_disabled_witness:
  "toUInt (QVariant_uint 4) = 4 \<and> isCritical critical_notification
   \<and> isEnabled None critical_notification 0
   \<and> \<not> isEnabled (Some (mode_surface (QVariant_uint 4))) critical_notification 0"
  using unknown_mode_disabled [of "mode_surface (QVariant_uint 4)" "QVariant_uint 4"
      critical_notification 0]
  by (simp add: mode_surface_def QVariant_uint_def critical_notification_def
      example_notification_def isCritical_def critical_threshold_def isEnabled_def currentMode_def)

section \<open>The feedback dispatcher\<close>

text \<open>
  C3. For a notification that is in the store and has no progress, \<open>addNotification\<close>
  first stops every event id bound to the notification, newest first, and only then
  sends the requests of the new effects, none of which stops an event id. The ids bound
  to the notification afterwards are exactly the ids the service returned for the plays
  of this call, whatever the earlier adds and updates had bound, and later calls for
  other notifications leave them as they are.
\<close>

theorem last_generation_only:
  assumes "notification env nid = Some p" and "\<not> hasProgress (object env p)"
    and "\<forall>(env', nid') \<in> set later. notification env' nid' \<noteq> Some p"
  shows "let s1 = addNotifications earlier s;
             s2 = addNotification env nid s1;
             s3 = addNotifications (earlier @ (env, nid) # later) s;
             c1 = m_ngfClient s1;
             c2 = m_ngfClient s2;
             es = startedEffects (topmostSurface env) (object env p) (m_minimumPriority s1)
         in calls c2 = calls c1 @ map StopId (bindings p (m_idToEventId s1)) @ requests es
            \<and> (\<forall>h. StopId h \<notin> set (requests es))
            \<and> played c2 = played c1 + length es
            \<and> bindings p (m_idToEventId s2) = rev (map (eventIds c1) [played c1 ..< played c2])
            \<and> bindings p (m_idToEventId s3) = bindings p (m_idToEventId s2)"
proof -
  have "addNotifications (earlier @ (env, nid) # later) s =
      addNotifications later (addNotification env nid (addNotifications earlier s))"
    by (simp add: addNotifications_append)
  then show ?thesis
    using assms
    by (simp add: Let_def addNotification_live no_StopId_requests bindings_addNotifications_other)
qed

text \<open>The scenario of the specification: feedback \<open>sound,led\<close> starts two effects, the
  update to \<open>led\<close> stops both and binds the one new event; an add for an unknown id
  follows.\<close>

theorem last_generation_only_witness:
  "bindings 7 (m_idToEventId
      (addNotifications
         [(example_environment (example_notification [HINT_FEEDBACK \<mapsto> QVariant_text ''sound,led'']) None, 1)]
         (example_player []))) = [101, 100]
   \<and> calls (m_ngfClient
      (addNotifications
         [(example_environment (example_notification [HINT_FEEDBACK \<mapsto> QVariant_text ''sound,led'']) None, 1),
          (example_environment (example_notification [HINT_FEEDBACK \<mapsto> QVariant_text ''led'']) None, 1)]
         (example_player []))) =
       [StopEvent ''sound'', Play ''sound'' [], StopEvent ''led'', Play ''led'' [],
        StopId 101, StopId 100, StopEvent ''led'', Play ''led'' []]
   \<and> bindings 7 (m_idToEventId
      (addNotifications
         [(example_environment (example_notification [HINT_FEEDBACK \<mapsto> QVariant_text ''sound,led'']) None, 1),
          (example_environment (example_notification [HINT_FEEDBACK \<mapsto> QVariant_text ''led'']) None, 1),
          (example_environment (example_notification Map.empty) None, 2)]
         (example_player []))) = [102]"
  using last_generation_only
    [of "example_environment (example_notification [HINT_FEEDBACK \<mapsto> QVariant_text ''led'']) None"
      1 7 "[(example_environment (example_notification Map.empty) None, 2)]"
      "[(example_environment (example_notification [HINT_FEEDBACK \<mapsto> QVariant_text ''sound,led'']) None, 1)]"
      "example_player []"]
  by (simp add: example_environment_def example_notification_def example_player_def
      QVariant_text_def addNotification_def isEnabled_def currentMode_def value_of_def
      value_or_def QVariant_invalid_def QVariant_bool_def feedbackItems_def split_def
      feedbackProperties_def play_def stop_event_def stop_id_def bindings_def
      startedEffects_def requests_def)

text \<open>
  C4. For a notification that is in the store, \<open>removeNotification\<close> sends one stop
  request for each event id bound to the notification, and nothing else, so as many
  requests as there were bindings; afterwards no id is bound to the notification, and
  the bindings of the other notifications are as before.
\<close>

theorem removeNotification_stops_all:
  assumes "notification env nid = Some p"
  shows "calls (m_ngfClient (removeNotification env nid s)) =
           calls (m_ngfClient s) @ map StopId (bindings p (m_idToEventId s))
     \<and> length (calls (m_ngfClient (removeNotification env nid s))) =
           length (calls (m_ngfClient s)) + length (bindings p (m_idToEventId s))
     \<and> bindings p (m_idToEventId (removeNotification env nid s)) = []
     \<and> (\<forall>q. q \<noteq> p \<longrightarrow>
           bindings q (m_idToEventId (removeNotification env nid s)) = bindings q (m_idToEventId s))"
  by (simp add: removeNotification_live [OF assms])

theorem removeNotification_stops_all_witness:
  "notification (example_environment (example_notification Map.empty) None) 1 = Some 7
   \<and> bindings 7 (m_idToEventId (example_player [(7, 55), (8, 56), (7, 57)])) = [55, 57]
   \<and> calls (m_ngfClient (removeNotification (example_environment (example_notification Map.empty) None)
         1 (example_player [(7, 55), (8, 56), (7, 57)]))) = [StopId 55, StopId 57]
   \<and> m_idToEventId (removeNotification (example_environment (example_notification Map.empty) None)
         1 (example_player [(7, 55), (8, 56), (7, 57)])) = [(8, 56)]"
  using removeNotification_stops_all [of "example_environment (example_notification Map.empty) None"
      1 7 "example_player [(7, 55), (8, 56), (7, 57)]"]
  by (simp add: example_environment_def example_player_def bindings_def removeNotification_def
      stop_id_def)

text \<open>
  C5. \<open>addNotification\<close> for an id that is not in the store, or whose notification
  reports progress, returns the player as it was: no binding changes and no request is
  sent. \<open>removeNotification\<close> for an id that is not in the store does the same. Both
  are total functions with no failure: the source dereferences the notification only
  behind its null check.
\<close>

theorem absent_or_progress_ignored:
  "(notification env nid = None \<or> (\<exists>p. notification env nid = Some p \<and> hasProgress (object env p))
      \<longrightarrow> addNotification env nid s = s)
   \<and> (notification env nid = None \<longrightarrow> removeNotification env nid s = s)"
  by (auto simp: addNotification_def removeNotification_def)

theorem absent_or_progress_ignored_witness:
  "addNotification (example_environment (example_notification Map.empty) None) 2
       (example_player [(7, 55)]) = example_player [(7, 55)]
   \<and> removeNotification (example_environment (example_notification Map.empty) None) 2
       (example_player [(7, 55)]) = example_player [(7, 55)]
   \<and> addNotification
       (example_environment ((example_notification [HINT_VIBRA \<mapsto> QVariant_bool True])
          \<lparr>hasProgress := True\<rparr>) None) 1
       (example_player [(7, 55)]) = example_player [(7, 55)]"
  using absent_or_progress_ignored [of "example_environment (example_notification Map.empty) None" 2
      "example_player [(7, 55)]"]
    absent_or_progress_ignored
      [of "example_environment ((example_notification [HINT_VIBRA \<mapsto> QVariant_bool True])
          \<lparr>hasProgress := True\<rparr>) None" 1 "example_player [(7, 55)]"]
  by (simp add: example_environment_def example_notification_def)

text \<open>
  C6, as the claim states it, fails: under app-notifications-disabled a notification of
  urgency below critical whose display-always hint is true is critical, and its
  vibration is started.
\<close>

theorem vibration_under_app_disabled_counterexample:
  "currentMode (Some (mode_surface (QVariant_uint 1))) = mode_value ApplicationNotificationsDisabled
   \<and> urgency display_on_notification < critical_threshold
   \<and> priority display_on_notification < m_minimumPriority (example_player [])
   \<and> hint_true display_on_notification HINT_VIBRA
   \<and> calls (m_ngfClient (addNotification
        (example_environment display_on_notification (Some (mode_surface (QVariant_uint 1)))) 1
        (example_player []))) = [StopEvent ''vibra'', Play ''vibra'' []]
   \<and> m_idToEventId (addNotification
        (example_environment display_on_notification (Some (mode_surface (QVariant_uint 1)))) 1
        (example_player [])) = [(7, 100)]"
  by (simp add: display_on_notification_def example_notification_def example_environment_def
      example_player_def mode_surface_def currentMode_def value_or_def hint_true_def
      QVariant_uint_def critical_threshold_def addNotification_def isEnabled_def value_of_def
      QVariant_bool_def feedbackItems_def split_def QVariant_invalid_def play_def stop_event_def)

text \<open>
  C6, amended. For a notification that is in the store and has no progress, with a true
  vibrate hint and a priority below the configured minimum: when \<open>isEnabled\<close> holds at
  minimum priority 0, the last two requests of \<open>addNotification\<close> stop the effect
  \<open>vibra\<close> and play it with no properties, and the id the service returned for this
  play is bound to the notification; when it does not hold, nothing is started; and it
  does not hold under app-notifications-disabled for a notification that is not
  critical, that is, of urgency below critical and without a true display-always hint.
\<close>

theorem vibration_bypass:
  assumes "notification env nid = Some p" and "\<not> hasProgress (object env p)"
    and "hint_true (object env p) HINT_VIBRA"
    and "priority (object env p) < m_minimumPriority s"
  shows "let n = object env p; surface = topmostSurface env;
             s' = addNotification env nid s; c = m_ngfClient s; c' = m_ngfClient s'
         in (isEnabled surface n 0 \<longrightarrow>
               (\<exists>before rest.
                  calls c' = before @ [StopEvent ''vibra'', Play ''vibra'' []]
                  \<and> played c' > played c
                  \<and> m_idToEventId s' = (p, eventIds c (played c' - 1)) # rest))
            \<and> (\<not> isEnabled surface n 0 \<longrightarrow>
                 calls c' = calls c @ map StopId (bindings p (m_idToEventId s))
                 \<and> played c' = played c
                 \<and> bindings p (m_idToEventId s') = [])
            \<and> (currentMode surface = mode_value ApplicationNotificationsDisabled
                 \<and> \<not> isCritical n \<longrightarrow> \<not> isEnabled surface n 0)"
proof -
  define n where "n = object env p"
  define surface where "surface = topmostSurface env"
  define es where "es = (if isEnabled surface n (m_minimumPriority s)
      then map (\<lambda>item. (item, feedbackProperties n)) (feedbackItems n) else [])"
  have on: "startedEffects surface n (m_minimumPriority s) = es @ [(''vibra'', [])]"
    if "isEnabled surface n 0"
    using that assms(3) by (simp add: startedEffects_vibra es_def n_def)
  have off: "startedEffects surface n (m_minimumPriority s) = []"
    if "\<not> isEnabled surface n 0"
    using that assms(4) by (simp add: startedEffects_disabled n_def)
  have gate: "\<not> isEnabled surface n 0"
    if "currentMode surface = mode_value ApplicationNotificationsDisabled" and "\<not> isCritical n"
    using that by (simp add: isEnabled_eq)
  show ?thesis
    using on off gate
    by (auto simp: Let_def addNotification_live [OF assms(1,2)] n_def [symmetric]
        surface_def [symmetric] requests_def)
qed

theorem vibration_bypass_witness:
  "priority vibrate_notification < m_minimumPriority (example_player [])
   \<and> \<not> isEnabled None vibrate_notification (m_minimumPriority (example_player []))
   \<and> isEnabled None vibrate_notification 0
   \<and> calls (m_ngfClient (addNotification (example_environment vibrate_notification None) 1
        (example_player []))) = [StopEvent ''vibra'', Play ''vibra'' []]
   \<and> m_idToEventId (addNotification (example_environment vibrate_notification None) 1
        (example_player [])) = [(7, 100)]
   \<and> \<not> isCritical vibrate_notification
   \<and> calls (m_ngfClient (addNotification
        (example_environment vibrate_notification (Some (mode_surface (QVariant_uint 1)))) 1
        (example_player []))) = []"
  using vibration_bypass [of "example_environment vibrate_notification None" 1 7 "example_player []"]
    vibration_bypass [of "example_environment vibrate_notification (Some (mode_surface (QVariant_uint 1)))"
      1 7 "example_player []"]
  by (simp add: vibrate_notification_def example_notification_def example_environment_def
      example_player_def mode_surface_def currentMode_def value_or_def hint_true_def
      QVariant_uint_def critical_threshold_def addNotification_def isEnabled_def value_of_def
      QVariant_bool_def feedbackItems_def split_def QVariant_invalid_def play_def stop_event_def
      isCritical_def)

text \<open>
  C7, as the claim states it, fails twice on one input. A sound-file hint that is present
  with an empty text sets neither the sound filename nor the sound flag; and the bare
  vibration started for the vibrate hint gets an empty property list, so a started
  effect lacks the vibration switch that the origin-package hint puts into the list.
\<close>

theorem effect_parameters_counterexample:
  "hints forwarded_notification HINT_SOUND_FILE \<noteq> None
   \<and> hint_text forwarded_notification HINT_ORIGIN_PACKAGE \<noteq> []
   \<and> feedbackItems forwarded_notification = [''sound'']
   \<and> isEnabled None forwarded_notification (m_minimumPriority (example_player []))
   \<and> calls (m_ngfClient (addNotification (example_environment forwarded_notification None) 1
        (example_player [])))
        = [StopEvent ''sound'', Play ''sound'' [(''media.vibra'', PropBool False)],
           StopEvent ''vibra'', Play ''vibra'' []]"
  by (simp add: forwarded_notification_def example_notification_def example_environment_def
      example_player_def QVariant_text_def currentMode_def value_or_def
      hint_text_def addNotification_def isEnabled_def value_of_def
      QVariant_bool_def feedbackItems_def split_def QVariant_invalid_def play_def stop_event_def
      feedbackProperties_def)

text \<open>
  C7, amended. For a notification that is in the store and has no progress, with a
  non-empty feedback list and enabled at the configured minimum priority, the requests
  of \<open>addNotification\<close> are the stops of the old bindings, then for each feedback item a
  stop by name and a play with one and the same property list, then the bare vibration
  (with an empty property list) when the vibrate hint asks for it. In the property list
  of the feedback items the LEDs are switched off exactly when body and summary are
  empty and the LED hint is not explicitly false, audio is switched off exactly when
  the suppress-sound hint is true, vibration is switched off exactly when the
  origin-package hint has a non-empty text, and exactly when the sound-file hint has a
  non-empty text the sound filename is that text without a leading \<open>file://\<close> and sound
  is switched on.
\<close>

theorem effect_parameters:
  assumes "notification env nid = Some p" and "\<not> hasProgress (object env p)"
    and "feedbackItems (object env p) \<noteq> []"
    and "isEnabled (topmostSurface env) (object env p) (m_minimumPriority s)"
  shows "let n = object env p; properties = feedbackProperties n;
             soundFile = hint_text n HINT_SOUND_FILE
         in calls (m_ngfClient (addNotification env nid s)) =
              calls (m_ngfClient s) @ map StopId (bindings p (m_idToEventId s))
              @ requests (map (\<lambda>item. (item, properties)) (feedbackItems n))
              @ (if isEnabled (topmostSurface env) n 0 \<and> hint_true n HINT_VIBRA
                 then [StopEvent ''vibra'', Play ''vibra'' []] else [])
            \<and> map_of properties ''media.leds'' =
                (if body n = [] \<and> summary n = []
                    \<and> \<not> hint_false n HINT_LED_DISABLED_WITHOUT_BODY_AND_SUMMARY
                 then Some (PropBool False) else None)
            \<and> map_of properties ''media.audio'' =
                (if hint_true n HINT_SUPPRESS_SOUND then Some (PropBool False) else None)
            \<and> map_of properties ''media.vibra'' =
                (if hint_text n HINT_ORIGIN_PACKAGE \<noteq> [] then Some (PropBool False) else None)
            \<and> map_of properties ''sound.filename'' =
                (if soundFile \<noteq> [] then Some (PropString (strip_file_prefix soundFile)) else None)
            \<and> map_of properties ''sound.enabled'' =
                (if soundFile \<noteq> [] then Some (PropBool True) else None)
            \<and> (\<forall>rest. strip_file_prefix (''file://'' @ rest) = rest)
            \<and> (take 7 soundFile \<noteq> ''file://'' \<longrightarrow> strip_file_prefix soundFile = soundFile)"
  using assms(3,4)
  by (simp add: Let_def addNotification_live [OF assms(1,2)] startedEffects_def hint_true_eq
      feedbackProperties_lookup strip_file_prefix_def requests_def)

theorem effect_parameters_witness:
  "feedbackItems (sound_file_notification ''sound'') = [''sound'']
   \<and> isEnabled None (sound_file_notification ''sound'') (m_minimumPriority (example_player []))
   \<and> calls (m_ngfClient (addNotification
        (example_environment (sound_file_notification ''sound'') None) 1 (example_player [(7, 55)])))
        = [StopId 55, StopEvent ''sound'',
           Play ''sound'' [(''media.leds'', PropBool False), (''media.audio'', PropBool False),
                           (''sound.filename'', PropString ''/a.wav''),
                           (''sound.enabled'', PropBool True)]]
   \<and> map_of (feedbackProperties (sound_file_notification ''sound'')) ''media.vibra'' = None"
  using effect_parameters [of "example_environment (sound_file_notification ''sound'') None" 1 7
      "example_player [(7, 55)]"]
  by (simp add: sound_file_notification_def example_notification_def example_environment_def
      example_player_def QVariant_text_def currentMode_def value_or_def
      hint_text_def hint_true_def hint_false_def addNotification_def isEnabled_def value_of_def
      QVariant_bool_def feedbackItems_def split_def QVariant_invalid_def play_def stop_event_def
      stop_id_def feedbackProperties_def strip_file_prefix_def bindings_def requests_def)

text \<open>
  C8. For every notification the feedback items are the segments of the feedback hint
  between its commas, without the empty ones: the segments with the empty ones kept
  hold no comma and give the text of the hint back when they are joined by commas, and
  the items are these segments without the empty ones. For a notification that is in
  the store and has no progress and whose list of items is empty, \<open>addNotification\<close>
  sends, after the stops of the old bindings, nothing but the bare vibration of the
  vibrate hint: no effect of the feedback loop is played, whether a sound-file hint is
  present and the notification is enabled or not.
\<close>

theorem empty_feedback_list_plays_nothing:
  "feedbackItems n =
     filter (\<lambda>w. w \<noteq> []) (split (hint_text n HINT_FEEDBACK) CHR '','' KeepEmptyParts)
   \<and> join CHR '','' (split (hint_text n HINT_FEEDBACK) CHR '','' KeepEmptyParts)
       = hint_text n HINT_FEEDBACK
   \<and> (\<forall>w \<in> set (split (hint_text n HINT_FEEDBACK) CHR '','' KeepEmptyParts).
         CHR '','' \<notin> set w)
   \<and> (notification env nid = Some p \<and> \<not> hasProgress (object env p)
        \<and> feedbackItems (object env p) = [] \<longrightarrow>
       calls (m_ngfClient (addNotification env nid s)) =
         calls (m_ngfClient s) @ map StopId (bindings p (m_idToEventId s))
         @ (if isEnabled (topmostSurface env) (object env p) 0
               \<and> hint_true (object env p) HINT_VIBRA
            then [StopEvent ''vibra'', Play ''vibra'' []] else [])
       \<and> bindings p (m_idToEventId (addNotification env nid s)) =
         (if isEnabled (topmostSurface env) (object env p) 0
             \<and> hint_true (object env p) HINT_VIBRA
          then [eventIds (m_ngfClient s) (played (m_ngfClient s))] else []))"
proof -
  have skip: "feedbackItems n =
      filter (\<lambda>w. w \<noteq> []) (split (hint_text n HINT_FEEDBACK) CHR '','' KeepEmptyParts)"
    by (simp add: feedbackItems_def split_def split_from_skip hint_text_eq)
  have joined: "join CHR '','' (split (hint_text n HINT_FEEDBACK) CHR '','' KeepEmptyParts)
      = hint_text n HINT_FEEDBACK"
    by (simp add: split_def join_split_from)
  have nosep: "\<forall>w \<in> set (split (hint_text n HINT_FEEDBACK) CHR '','' KeepEmptyParts).
      CHR '','' \<notin> set w"
    unfolding split_def by (rule split_from_no_sep) simp
  have es: "startedEffects (topmostSurface env) (object env p) (m_minimumPriority s) =
      (if isEnabled (topmostSurface env) (object env p) 0 \<and> hint_true (object env p) HINT_VIBRA
       then [(''vibra'', [])] else [])"
    if "feedbackItems (object env p) = []"
    using that by (simp add: startedEffects_def hint_true_eq)
  have silent: "calls (m_ngfClient (addNotification env nid s)) =
         calls (m_ngfClient s) @ map StopId (bindings p (m_idToEventId s))
         @ (if isEnabled (topmostSurface env) (object env p) 0
               \<and> hint_true (object env p) HINT_VIBRA
            then [StopEvent ''vibra'', Play ''vibra'' []] else [])
       \<and> bindings p (m_idToEventId (addNotification env nid s)) =
         (if isEnabled (topmostSurface env) (object env p) 0
             \<and> hint_true (object env p) HINT_VIBRA
          then [eventIds (m_ngfClient s) (played (m_ngfClient s))] else [])"
    if live: "notification env nid = Some p" "\<not> hasProgress (object env p)"
      and none: "feedbackItems (object env p) = []"
    by (simp add: Let_def addNotification_live [OF live] es [OF none] requests_def)
  show ?thesis
    using skip joined nosep silent by blast
qed

text \<open>A hint with empty segments that yields two items, and a hint of commas only on a
  notification that is enabled and has a sound file.\<close>

theorem empty_feedback_list_plays_nothing_witness:
  "split '',sound,,led,'' CHR '','' KeepEmptyParts = [[], ''sound'', [], ''led'', []]
   \<and> feedbackItems (sound_file_notification '',sound,,led,'') = [''sound'', ''led'']
   \<and> hint_text (sound_file_notification '',,'') HINT_SOUND_FILE = ''file:///a.wav''
   \<and> isEnabled None (sound_file_notification '',,'') (m_minimumPriority (example_player []))
   \<and> feedbackItems (sound_file_notification '',,'') = []
   \<and> calls (m_ngfClient (addNotification
        (example_environment (sound_file_notification '',,'') None) 1 (example_player [(7, 55)])))
        = [StopId 55]
   \<and> m_idToEventId (addNotification
        (example_environment (sound_file_notification '',,'') None) 1 (example_player [(7, 55)])) = []"
  using empty_feedback_list_plays_nothing
      [of "sound_file_notification '',,''"
        "example_environment (sound_file_notification '',,'') None" 1 7 "example_player [(7, 55)]"]
    empty_feedback_list_plays_nothing
      [of "sound_file_notification '',sound,,led,''"
        "example_environment (sound_file_notification '',,'') None" 1 7 "example_player [(7, 55)]"]
  by (simp add: sound_file_notification_def example_notification_def example_environment_def
      example_player_def QVariant_text_def currentMode_def value_or_def
      hint_text_def hint_true_def addNotification_def isEnabled_def value_of_def
      QVariant_bool_def feedbackItems_def split_def QVariant_invalid_def play_def stop_event_def
      stop_id_def bindings_def)

end
